theory Spec2Isabelle
  imports Main "HOL-Library.Sublist"
begin

section \<open>JavaScript values used by the mock session service\<close>

text \<open>
  The service keeps its data in two module-level \<^verbatim>\<open>Map<string, ...>\<close> objects.
  A JavaScript \<^verbatim>\<open>Map\<close> iterates in insertion order and keeps one value per key, so it
  is an association list: \<^verbatim>\<open>set\<close> on a key that is present replaces the value in
  place, \<^verbatim>\<open>set\<close> on a new key appends, \<^verbatim>\<open>delete\<close> removes the key.
\<close>

type_synonym 'v js_map = "(string \<times> 'v) list"

fun map_set :: "string \<Rightarrow> 'v \<Rightarrow> 'v js_map \<Rightarrow> 'v js_map" where
  "map_set k v [] = [(k, v)]"
| "map_set k v (p # m) = (if fst p = k then (k, v) # m else p # map_set k v m)"

definition map_get :: "string \<Rightarrow> 'v js_map \<Rightarrow> 'v option" where
  "map_get k m = map_of m k"

definition map_has :: "string \<Rightarrow> 'v js_map \<Rightarrow> bool" where
  "map_has k m = (map_of m k \<noteq> None)"

definition map_delete :: "string \<Rightarrow> 'v js_map \<Rightarrow> 'v js_map" where
  "map_delete k m = filter (\<lambda>p. fst p \<noteq> k) m"

text \<open>
  Times are the integer millisecond values of \<^verbatim>\<open>Date\<close> objects. The entries keep
  their dates as ISO strings; \<^verbatim>\<open>new Date(d.toISOString())\<close> gives back the time value
  of a valid date \<^verbatim>\<open>d\<close>, so a stored date is modelled by its time value.
  \<^verbatim>\<open>toISOString\<close> throws \<^verbatim>\<open>RangeError\<close> on a date more than
  8640000000000000 milliseconds away from the epoch, which is where the \<^verbatim>\<open>Date\<close> constructor
  produces an invalid date.
\<close>

datatype js_error = RangeError

definition toISOString :: "int \<Rightarrow> js_error + int" where
  "toISOString t = (if \<bar>t\<bar> \<le> 8640000000000000 then Inr t else Inl RangeError)"

text \<open>
  \<^verbatim>\<open>Array.prototype.sort\<close> with a comparator is a stable sort: an element stays
  before another one unless the comparator gives a positive number for the pair.
\<close>

fun insert_by :: "('a \<Rightarrow> 'a \<Rightarrow> int) \<Rightarrow> 'a \<Rightarrow> 'a list \<Rightarrow> 'a list" where
  "insert_by cmp x [] = [x]"
| "insert_by cmp x (y # ys) = (if cmp x y \<le> 0 then x # y # ys else y # insert_by cmp x ys)"

definition js_sort :: "('a \<Rightarrow> 'a \<Rightarrow> int) \<Rightarrow> 'a list \<Rightarrow> 'a list" where
  "js_sort cmp xs = foldr (insert_by cmp) xs []"

section \<open>The data of the service\<close>

text \<open>
  \<^verbatim>\<open>RedisEntry\<close>: \<^verbatim>\<open>id, text, createdAt, expiresAt, ttl, imageUrl?, memberId\<close>.
  The time to live is a number of seconds, taken here as an integer.
\<close>

record RedisEntry =
  e_id :: string
  e_text :: string
  e_createdAt :: int
  e_expiresAt :: int
  e_ttl :: int
  e_imageUrl :: "string option"
  e_memberId :: string

text \<open>The values of \<^verbatim>\<open>mockMembers\<close>: \<^verbatim>\<open>{ sessionId, memberId, lastSeen }\<close>.\<close>

record MockMember =
  m_sessionId :: string
  m_memberId :: string
  m_lastSeen :: int

text \<open>
  \<^verbatim>\<open>mockEntries\<close> and \<^verbatim>\<open>mockMembers\<close> are constants of the module, not fields of
  the class: there is one pair of maps for the process.
\<close>

record module_state =
  mockEntries :: "RedisEntry js_map"
  mockMembers :: "MockMember js_map"

definition module_init :: module_state where
  "module_init = \<lparr>mockEntries = [], mockMembers = []\<rparr>"

text \<open>
  \<^verbatim>\<open>sampleEntries\<close> is built once, when the module is loaded, from six readings of
  \<^verbatim>\<open>Date.now()\<close>; \<open>clk i\<close> is the \<open>i\<close>-th of them.
\<close>

definition sampleEntries :: "(nat \<Rightarrow> int) \<Rightarrow> RedisEntry list" where
  "sampleEntries clk =
    [\<lparr>e_id = ''entry-1'',
      e_text = ''Welcome to the session! This is a sample entry.'',
      e_createdAt = clk 0 - 5000,
      e_expiresAt = clk 1 + 3600000,
      e_ttl = 3600,
      e_imageUrl = Some ''https://picsum.photos/seed/1/400/300'',
      e_memberId = ''member-1''\<rparr>,
     \<lparr>e_id = ''entry-2'',
      e_text = ''This is another sample entry with some interesting content.'',
      e_createdAt = clk 2 - 10000,
      e_expiresAt = clk 3 + 7200000,
      e_ttl = 7200,
      e_imageUrl = None,
      e_memberId = ''member-2''\<rparr>,
     \<lparr>e_id = ''entry-3'',
      e_text = ''Mock data is great for testing without external dependencies!'',
      e_createdAt = clk 4 - 15000,
      e_expiresAt = clk 5 + 1800000,
      e_ttl = 1800,
      e_imageUrl = Some ''https://picsum.photos/seed/2/400/300'',
      e_memberId = ''member-1''\<rparr>]"

text \<open>
  The class \<^verbatim>\<open>SessionRedisService\<close> has no fields and no constructor: an instance is
  only its identity.
\<close>

datatype SessionRedisService = Instance nat

section \<open>The methods of \<^verbatim>\<open>SessionRedisService\<close>\<close>

definition getEntryKey :: "string \<Rightarrow> string \<Rightarrow> string" where
  "getEntryKey sessionId entryId = ''session:'' @ sessionId @ '':entry:'' @ entryId"

definition getMemberKey :: "string \<Rightarrow> string \<Rightarrow> string" where
  "getMemberKey sessionId memberId = ''session:'' @ sessionId @ '':member:'' @ memberId"

text \<open>
  \<^verbatim>\<open>ENTRIES_REFETCH_INTERVAL_MS\<close> comes from a constants module that is not part of
  the sources; it is a parameter. \<^verbatim>\<open>Math.floor(x / 1000)\<close> on an integer is \<open>div\<close>.
\<close>

definition getMemberTTL :: "int \<Rightarrow> int" where
  "getMemberTTL ENTRIES_REFETCH_INTERVAL_MS = ENTRIES_REFETCH_INTERVAL_MS div 1000 + 10"

definition trackMember ::
  "SessionRedisService \<Rightarrow> string \<Rightarrow> string \<Rightarrow> int \<Rightarrow> module_state \<Rightarrow> module_state" where
  "trackMember self sessionId memberId now st =
    (let memberKey = getMemberKey sessionId memberId
     in st\<lparr>mockMembers :=
          map_set memberKey
            \<lparr>m_sessionId = sessionId, m_memberId = memberId, m_lastSeen = now\<rparr>
            (mockMembers st)\<rparr>)"

definition getOnlineMemberCount ::
  "SessionRedisService \<Rightarrow> int \<Rightarrow> string \<Rightarrow> int \<Rightarrow> module_state \<Rightarrow> int" where
  "getOnlineMemberCount self ENTRIES_REFETCH_INTERVAL_MS sessionId now st =
    (let memberTTL = getMemberTTL ENTRIES_REFETCH_INTERVAL_MS * 1000;
         onlineCount =
           fold (\<lambda>(key, member) onlineCount.
                   if m_sessionId member = sessionId \<and> now - m_lastSeen member < memberTTL
                   then onlineCount + 1 else onlineCount)
                (mockMembers st) 0
     in max 3 onlineCount)"

text \<open>
  \<^verbatim>\<open>addEntry\<close>: \<open>uuid\<close> is the result of \<^verbatim>\<open>uuidv4()\<close> and \<open>now\<close> the time of
  \<^verbatim>\<open>new Date()\<close>. An absent or empty \<^verbatim>\<open>imageUrl\<close> is falsy and leaves the field
  out. The two \<^verbatim>\<open>toISOString\<close> calls come before the write to the map, so a
  \<^verbatim>\<open>RangeError\<close> stores nothing.
\<close>

definition addEntry ::
  "SessionRedisService \<Rightarrow> string \<Rightarrow> int \<Rightarrow> string option \<Rightarrow> string \<Rightarrow> string \<Rightarrow> string \<Rightarrow> int
     \<Rightarrow> module_state \<Rightarrow> js_error + (RedisEntry \<times> module_state)" where
  "addEntry self text ttl imageUrl sessionId memberId uuid now st =
    (let entryId = uuid;
         expiresAt = now + ttl * 1000
     in case toISOString now of
          Inl err \<Rightarrow> Inl err
        | Inr createdAtIso \<Rightarrow>
            (case toISOString expiresAt of
               Inl err \<Rightarrow> Inl err
             | Inr expiresAtIso \<Rightarrow>
                 (let entry = \<lparr>e_id = entryId,
                               e_text = text,
                               e_createdAt = createdAtIso,
                               e_expiresAt = expiresAtIso,
                               e_ttl = ttl,
                               e_imageUrl = (case imageUrl of
                                               None \<Rightarrow> None
                                             | Some u \<Rightarrow> if u = [] then None else Some u),
                               e_memberId = memberId\<rparr>;
                      entryKey = getEntryKey sessionId entryId
                  in Inr (entry, st\<lparr>mockEntries := map_set entryKey entry (mockEntries st)\<rparr>))))"

text \<open>The comparator of both \<^verbatim>\<open>sort\<close> calls: newest first.\<close>

definition newestFirst :: "RedisEntry \<Rightarrow> RedisEntry \<Rightarrow> int" where
  "newestFirst a b = e_createdAt b - e_createdAt a"

definition getAllEntries ::
  "SessionRedisService \<Rightarrow> (nat \<Rightarrow> int) \<Rightarrow> string \<Rightarrow> int \<Rightarrow> module_state \<Rightarrow> RedisEntry list" where
  "getAllEntries self clk sessionId now st =
    (let sessionEntries =
           fold (\<lambda>(key, entry) sessionEntries.
                   if prefix (''session:'' @ sessionId @ '':entry:'') key \<and> e_expiresAt entry > now
                   then sessionEntries @ [entry] else sessionEntries)
                (mockEntries st) []
     in if length sessionEntries = 0
        then js_sort newestFirst (sampleEntries clk)
        else js_sort newestFirst sessionEntries)"

definition getEntry ::
  "SessionRedisService \<Rightarrow> (nat \<Rightarrow> int) \<Rightarrow> string \<Rightarrow> string \<Rightarrow> int \<Rightarrow> module_state
     \<Rightarrow> RedisEntry option \<times> module_state" where
  "getEntry self clk sessionId entryId now st =
    (let entryKey = getEntryKey sessionId entryId
     in case map_get entryKey (mockEntries st) of
          None \<Rightarrow> ((case sampleEntries clk of [] \<Rightarrow> None | e # _ \<Rightarrow> Some e), st)
        | Some entry \<Rightarrow>
            if e_expiresAt entry \<le> now
            then (None, st\<lparr>mockEntries := map_delete entryKey (mockEntries st)\<rparr>)
            else (Some entry, st))"

definition deleteEntry ::
  "SessionRedisService \<Rightarrow> string \<Rightarrow> string \<Rightarrow> module_state \<Rightarrow> bool \<times> module_state" where
  "deleteEntry self sessionId entryId st =
    (let entryKey = getEntryKey sessionId entryId;
         existed = map_has entryKey (mockEntries st)
     in (existed, st\<lparr>mockEntries := map_delete entryKey (mockEntries st)\<rparr>))"

section \<open>Auxiliary notions for the statements\<close>

text \<open>A load clock whose six readings fall into the same millisecond \<open>t\<close>.\<close>

definition same_ms :: "int \<Rightarrow> nat \<Rightarrow> int" where
  "same_ms t i = t"

text \<open>An identifier without a colon, as every UUID is.\<close>

definition plain :: "string \<Rightarrow> bool" where
  "plain s \<longleftrightarrow> CHR '':'' \<notin> set s"

text \<open>
  The part of a key between \<^verbatim>\<open>session:\<close> (8 characters) and
  \<^verbatim>\<open>:entry:<entryId>\<close> (7 characters and the id).
\<close>

definition session_of_key :: "string \<Rightarrow> string \<Rightarrow> string" where
  "session_of_key key entryId = take (length key - (15 + length entryId)) (drop 8 key)"

text \<open>
  Every key of the entry map is \<^verbatim>\<open>session:<s>:entry:<id>\<close> for the \<^verbatim>\<open>id\<close> field of
  the entry it maps to and some session \<open>s\<close>, which is then the part that
  \<open>session_of_key\<close> cuts out.
\<close>

definition entries_keyed :: "module_state \<Rightarrow> bool" where
  "entries_keyed st \<longleftrightarrow>
     (\<forall>(key, entry) \<in> set (mockEntries st).
        key = getEntryKey (session_of_key key (e_id entry)) (e_id entry))"

text \<open>The same, with session and entry identifiers that have no colon.\<close>

definition entries_keyed_plain :: "module_state \<Rightarrow> bool" where
  "entries_keyed_plain st \<longleftrightarrow>
     (\<forall>(key, entry) \<in> set (mockEntries st).
        key = getEntryKey (session_of_key key (e_id entry)) (e_id entry)
        \<and> plain (session_of_key key (e_id entry)) \<and> plain (e_id entry))"

text \<open>
  A store with three entries of session \<open>s1\<close> and one of session \<open>s2\<close>; \<open>u1\<close> and
  \<open>u4\<close> have the same creation time.
\<close>

definition two_sessions_store :: module_state where
  "two_sessions_store =
     \<lparr>mockEntries =
        [(''session:s1:entry:u1'',
          \<lparr>e_id = ''u1'', e_text = ''a'', e_createdAt = 1000, e_expiresAt = 61000, e_ttl = 60,
           e_imageUrl = None, e_memberId = ''m1''\<rparr>),
         (''session:s2:entry:u2'',
          \<lparr>e_id = ''u2'', e_text = ''b'', e_createdAt = 1000, e_expiresAt = 61000, e_ttl = 60,
           e_imageUrl = None, e_memberId = ''m1''\<rparr>),
         (''session:s1:entry:u3'',
          \<lparr>e_id = ''u3'', e_text = ''c'', e_createdAt = 2000, e_expiresAt = 62000, e_ttl = 60,
           e_imageUrl = None, e_memberId = ''m2''\<rparr>),
         (''session:s1:entry:u4'',
          \<lparr>e_id = ''u4'', e_text = ''d'', e_createdAt = 1000, e_expiresAt = 61000, e_ttl = 60,
           e_imageUrl = None, e_memberId = ''m2''\<rparr>)],
      mockMembers = []\<rparr>"

text \<open>
  The strings that \<^verbatim>\<open>uuidv4()\<close> returns: 36 characters, lowercase hexadecimal digits and
  hyphens, with the hyphens after 8, 13, 18 and 23 characters and the version digit 4.
\<close>

definition is_uuid :: "string \<Rightarrow> bool" where
  "is_uuid s \<longleftrightarrow>
     length s = 36
     \<and> s ! 8 = CHR ''-'' \<and> s ! 13 = CHR ''-'' \<and> s ! 18 = CHR ''-'' \<and> s ! 23 = CHR ''-''
     \<and> s ! 14 = CHR ''4''
     \<and> list_all (\<lambda>c. c = CHR ''-'' \<or> c \<in> set ''0123456789abcdef'') s"

text \<open>
  The states of the module that the service reaches: the state after loading, and the state
  after any operation of the service on a state it reaches. The id of \<^verbatim>\<open>addEntry\<close>
  comes from \<^verbatim>\<open>uuidv4()\<close>.
\<close>

inductive reachable :: "module_state \<Rightarrow> bool" where
  loaded: "reachable module_init"
| added: "reachable st \<Longrightarrow> is_uuid uuid \<Longrightarrow>
          addEntry self entryText ttl imageUrl sessionId memberId uuid now st = Inr (entry, st')
          \<Longrightarrow> reachable st'"
| looked_up: "reachable st \<Longrightarrow> reachable (snd (getEntry self clk sessionId entryId now st))"
| deleted: "reachable st \<Longrightarrow> reachable (snd (deleteEntry self sessionId entryId st))"
| tracked: "reachable st \<Longrightarrow> reachable (trackMember self sessionId memberId now st)"

section \<open>Facts about the map, the loops and the sort\<close>

lemma session_of_getEntryKey: "session_of_key (getEntryKey s i) i = s"
  by (simp add: session_of_key_def getEntryKey_def)

lemma entries_keyed_iff:
  "entries_keyed st \<longleftrightarrow>
     (\<forall>(key, entry) \<in> set (mockEntries st). \<exists>s. key = getEntryKey s (e_id entry))"
  unfolding entries_keyed_def using session_of_getEntryKey by force

lemma entries_keyed_plain_iff:
  "entries_keyed_plain st \<longleftrightarrow>
     (\<forall>(key, entry) \<in> set (mockEntries st).
        \<exists>s. plain s \<and> plain (e_id entry) \<and> key = getEntryKey s (e_id entry))"
  unfolding entries_keyed_plain_def using session_of_getEntryKey by force

lemma map_of_map_set: "map_of (map_set k v m) = (map_of m)(k \<mapsto> v)"
  by (induction m) (auto simp: fun_eq_iff)

lemma map_get_map_set: "map_get k' (map_set k v m) = (if k' = k then Some v else map_get k' m)"
  by (simp add: map_get_def map_of_map_set)

lemma map_get_map_delete: "map_get k' (map_delete k m) = (if k' = k then None else map_get k' m)"
  unfolding map_get_def map_delete_def
  by (induction m) auto

lemma map_delete_absent: "map_get k m = None \<Longrightarrow> map_delete k m = m"
  unfolding map_get_def map_delete_def
  by (induction m) (auto split: if_splits)

lemma filter_map_delete_unselected:
  assumes "distinct (map fst m)" "map_get k m = Some v" "\<not> P (k, v)"
  shows "filter P (map_delete k m) = filter P m"
  using assms unfolding map_get_def map_delete_def
proof (induction m)
  case Nil
  then show ?case by simp
next
  case (Cons p m)
  show ?case
  proof (cases "fst p = k")
    case True
    with Cons.prems have p: "p = (k, v)" by (cases p) simp
    from Cons.prems True have "k \<notin> fst ` set m" by simp
    then have "filter (\<lambda>p. fst p \<noteq> k) m = m" by (auto simp: filter_id_conv)
    with p Cons.prems(3) show ?thesis by simp
  next
    case False
    with Cons show ?thesis by simp
  qed
qed

text \<open>The two \<^verbatim>\<open>for ... of\<close> loops are a filter of the map's entries, in their order.\<close>

lemma fold_collect:
  "fold (\<lambda>(key, entry) acc. if P key entry then acc @ [entry] else acc) m acc0
     = acc0 @ map snd (filter (\<lambda>(key, entry). P key entry) m)"
  by (induction m arbitrary: acc0) auto

lemma fold_count:
  "fold (\<lambda>(key, member) (c::int). if P key member then c + 1 else c) m c0
     = c0 + int (length (filter (\<lambda>(key, member). P key member) m))"
  by (induction m arbitrary: c0) auto

lemma getAllEntries_eq:
  "getAllEntries self clk sessionId now st =
    (let live = map snd (filter (\<lambda>(key, entry). prefix (''session:'' @ sessionId @ '':entry:'') key
                                      \<and> now < e_expiresAt entry) (mockEntries st))
     in js_sort newestFirst (if live = [] then sampleEntries clk else live))"
  unfolding getAllEntries_def fold_collect by (simp add: Let_def)

lemma getOnlineMemberCount_eq:
  "getOnlineMemberCount self R sessionId now st =
     max 3 (int (length (filter (\<lambda>(key, member). m_sessionId member = sessionId
                    \<and> now - m_lastSeen member < getMemberTTL R * 1000) (mockMembers st))))"
  unfolding getOnlineMemberCount_def Let_def fold_count by simp

lemma insert_by_not_Nil: "insert_by cmp x ys \<noteq> []"
  by (cases ys) auto

lemma js_sort_Nil_iff: "js_sort cmp xs = [] \<longleftrightarrow> xs = []"
  by (cases xs) (auto simp: js_sort_def insert_by_not_Nil)

lemma set_map_set_subset: "set (map_set k v m) \<subseteq> insert (k, v) (set m)"
  by (induction m) auto

lemma set_map_delete_subset: "set (map_delete k m) \<subseteq> set m"
  by (auto simp: map_delete_def)

lemma insert_by_insort: "insert_by newestFirst x ys = insort_key (\<lambda>e. - e_createdAt e) x ys"
  by (induction ys) (auto simp: newestFirst_def)

lemma js_sort_newestFirst: "js_sort newestFirst xs = sort_key (\<lambda>e. - e_createdAt e) xs"
  by (induction xs) (auto simp: js_sort_def insert_by_insort)

lemma js_sort_newestFirst_sorted:
  "sorted_wrt (\<lambda>a b. e_createdAt b \<le> e_createdAt a) (js_sort newestFirst xs)"
proof -
  have "sorted (map (\<lambda>e. - e_createdAt e) (sort_key (\<lambda>e. - e_createdAt e) xs))"
    by (rule sorted_sort_key)
  then show ?thesis
    by (simp add: js_sort_newestFirst sorted_map)
qed

lemma js_sort_newestFirst_stable:
  "filter (\<lambda>e. e_createdAt e = t) (js_sort newestFirst xs) = filter (\<lambda>e. e_createdAt e = t) xs"
  using sort_key_stable [of "\<lambda>e. - e_createdAt e" "- t" xs]
  by (simp add: js_sort_newestFirst)

lemma set_js_sort_newestFirst: "set (js_sort newestFirst xs) = set xs"
  by (simp add: js_sort_newestFirst)

text \<open>The id of a key is what follows its last colon, when the id has none.\<close>

lemma key_last_part:
  assumes "plain i"
  shows "rev (takeWhile (\<lambda>c. c \<noteq> CHR '':'') (rev (getEntryKey s i))) = i"
proof -
  have "rev (getEntryKey s i) = rev i @ CHR '':'' # rev (''session:'' @ s @ '':entry'')"
    by (simp add: getEntryKey_def)
  moreover have "\<forall>c \<in> set (rev i). c \<noteq> CHR '':''"
    using assms by (auto simp: plain_def)
  ultimately have "takeWhile (\<lambda>c. c \<noteq> CHR '':'') (rev (getEntryKey s i)) = rev i"
    by (simp add: takeWhile_tail)
  then show ?thesis by simp
qed

lemma getEntryKey_inject:
  assumes "plain i" "plain i'" "getEntryKey s i = getEntryKey s' i'"
  shows "i = i' \<and> s = s'"
proof -
  have "i = i'"
    using key_last_part [OF assms(1), of s] key_last_part [OF assms(2), of s'] assms(3) by simp
  with assms(3) show ?thesis by (simp add: getEntryKey_def)
qed

lemma colons_entry_tail:
  assumes "plain i" "''entry:'' @ i = us @ '':entry:'' @ r"
  shows False
proof -
  let ?colons = "\<lambda>xs. length (filter (\<lambda>c. c = CHR '':'') xs)"
  have a: "?colons (''entry:'' @ i) = 1"
    using assms(1) by (auto simp: plain_def filter_empty_conv)
  have b: "2 \<le> ?colons (us @ '':entry:'' @ r)"
    by simp
  have "?colons (''entry:'' @ i) = ?colons (us @ '':entry:'' @ r)"
    by (rule arg_cong [OF assms(2)])
  with a b show False by linarith
qed

lemma session_prefix_plain:
  assumes "plain s'" "plain i'"
    and "prefix (''session:'' @ s @ '':entry:'') (getEntryKey s' i')"
  shows "s = s'"
proof -
  from assms(3) obtain r where r: "s' @ '':entry:'' @ i' = s @ '':entry:'' @ r"
    by (auto simp: getEntryKey_def prefix_def)
  then consider us where "s' = s @ us" "us @ '':entry:'' @ i' = '':entry:'' @ r"
    | us where "s' @ us = s" "'':entry:'' @ i' = us @ '':entry:'' @ r"
    by (auto simp: append_eq_append_conv2)
  then show ?thesis
  proof cases
    case 1
    show ?thesis
    proof (cases us)
      case Nil
      with 1 show ?thesis by simp
    next
      case (Cons c cs)
      with 1 have "c = CHR '':''" by simp
      with Cons 1 assms(1) show ?thesis by (simp add: plain_def)
    qed
  next
    case 2
    show ?thesis
    proof (cases us)
      case Nil
      with 2 show ?thesis by simp
    next
      case (Cons c cs)
      with 2 have "''entry:'' @ i' = cs @ '':entry:'' @ r" by auto
      with colons_entry_tail [OF assms(2)] show ?thesis by blast
    qed
  qed
qed


text \<open>Writes and removals keep the keys in step with the ids.\<close>

lemma entries_keyed_map_delete:
  "entries_keyed st \<Longrightarrow> entries_keyed (st\<lparr>mockEntries := map_delete k (mockEntries st)\<rparr>)"
  by (auto simp: entries_keyed_iff map_delete_def)

lemma entries_keyed_map_set:
  "entries_keyed st \<Longrightarrow>
   entries_keyed (st\<lparr>mockEntries := map_set (getEntryKey s (e_id entry)) entry (mockEntries st)\<rparr>)"
  using set_map_set_subset [of "getEntryKey s (e_id entry)" entry "mockEntries st"]
  by (fastforce simp: entries_keyed_iff)


lemma keys_map_set: "fst ` set (map_set k v m) = insert k (fst ` set m)"
  by (induction m) auto

lemma distinct_map_set: "distinct (map fst m) \<Longrightarrow> distinct (map fst (map_set k v m))"
proof (induction m)
  case Nil
  then show ?case by simp
next
  case (Cons p m)
  then show ?case using keys_map_set [of k v m] by auto
qed

lemma distinct_map_delete: "distinct (map fst m) \<Longrightarrow> distinct (map fst (map_delete k m))"
  by (simp add: map_delete_def distinct_map_filter)

text \<open>A JavaScript map has each key once; the model keeps it so.\<close>

lemma members_distinct_trackMember:
  "distinct (map fst (mockMembers st)) \<Longrightarrow>
   distinct (map fst (mockMembers (trackMember self sessionId memberId now st)))"
  by (simp add: trackMember_def distinct_map_set)

lemma trackMember_records_time:
  "map_get (getMemberKey sessionId memberId)
     (mockMembers (trackMember self sessionId memberId now st))
   = Some \<lparr>m_sessionId = sessionId, m_memberId = memberId, m_lastSeen = now\<rparr>"
  by (simp add: trackMember_def map_get_map_set)

lemma members_untouched_by_entry_operations:
  "addEntry self entryText ttl imageUrl sessionId memberId uuid now st = Inr (entry, st')
     \<Longrightarrow> mockMembers st' = mockMembers st"
  "mockMembers (snd (getEntry self clk sessionId entryId now st)) = mockMembers st"
  "mockMembers (snd (deleteEntry self sessionId entryId st)) = mockMembers st"
  by (auto simp: addEntry_def getEntry_def deleteEntry_def Let_def
      split: sum.splits option.splits)

lemma entries_keyed_plain_init: "entries_keyed_plain module_init"
  by (simp add: entries_keyed_plain_iff module_init_def)

lemma entries_keyed_plain_map_delete:
  "entries_keyed_plain st \<Longrightarrow>
   entries_keyed_plain (st\<lparr>mockEntries := map_delete k (mockEntries st)\<rparr>)"
  by (auto simp: entries_keyed_plain_iff map_delete_def)

lemma entries_keyed_plain_addEntry:
  assumes "entries_keyed_plain st" "plain sessionId" "plain uuid"
    and "addEntry self entryText ttl imageUrl sessionId memberId uuid now st = Inr (entry, st')"
  shows "entries_keyed_plain st'"
proof -
  from assms(4) have id: "e_id entry = uuid"
    and st': "st' = st\<lparr>mockEntries := map_set (getEntryKey sessionId uuid) entry (mockEntries st)\<rparr>"
    by (auto simp: addEntry_def Let_def split: sum.splits)
  show ?thesis
    using assms(1-3) id set_map_set_subset [of "getEntryKey sessionId uuid" entry "mockEntries st"]
    unfolding st' entries_keyed_plain_iff
    by fastforce
qed

lemma entries_keyed_plain_getEntry:
  "entries_keyed_plain st \<Longrightarrow>
   entries_keyed_plain (snd (getEntry self clk sessionId entryId now st))"
  by (simp add: getEntry_def Let_def entries_keyed_plain_map_delete split: option.splits)

lemma entries_keyed_plain_deleteEntry:
  "entries_keyed_plain st \<Longrightarrow> entries_keyed_plain (snd (deleteEntry self sessionId entryId st))"
  by (simp add: deleteEntry_def Let_def entries_keyed_plain_map_delete)

lemma entries_keyed_plain_trackMember:
  "entries_keyed_plain st \<Longrightarrow> entries_keyed_plain (trackMember self sessionId memberId now st)"
  by (simp add: trackMember_def entries_keyed_plain_iff)

text \<open>Every stored entry has the id of an \<^verbatim>\<open>addEntry\<close>, which no sample entry has.\<close>

lemma is_uuid_plain:
  assumes "is_uuid s"
  shows "plain s"
proof -
  from assms have "list_all (\<lambda>c. c = CHR ''-'' \<or> c \<in> set ''0123456789abcdef'') s"
    unfolding is_uuid_def by blast
  then have every: "\<And>c. c \<in> set s \<Longrightarrow> c = CHR ''-'' \<or> c \<in> set ''0123456789abcdef''"
    unfolding list_all_iff by blast
  have "\<not> (CHR '':'' = CHR ''-'' \<or> CHR '':'' \<in> set ''0123456789abcdef'')"
    by simp
  with every show ?thesis
    unfolding plain_def by blast
qed

lemma is_uuid_length: "is_uuid s \<Longrightarrow> length s = 36"
  unfolding is_uuid_def by blast

lemma is_uuid_not_sample:
  assumes "is_uuid (e_id entry)"
  shows "entry \<notin> set (sampleEntries clk)"
proof
  assume "entry \<in> set (sampleEntries clk)"
  then have "length (e_id entry) = 7"
    by (auto simp: sampleEntries_def)
  with is_uuid_length [OF assms] show False by simp
qed

lemma is_uuid_example: "is_uuid ''123e4567-e89b-42d3-a456-426614174000''"
  by (simp add: is_uuid_def)

lemma reachable_ids_are_uuids:
  assumes "reachable st" "(key, entry) \<in> set (mockEntries st)"
  shows "is_uuid (e_id entry)"
  using assms
proof (induction arbitrary: key entry rule: reachable.induct)
  case loaded
  then show ?case by (simp add: module_init_def)
next
  case (added st uuid self entryText ttl imageUrl sessionId memberId now new st')
  from added.hyps(3) have id: "e_id new = uuid"
    and st': "mockEntries st' = map_set (getEntryKey sessionId uuid) new (mockEntries st)"
    by (auto simp: addEntry_def Let_def split: sum.splits)
  from added.prems st' set_map_set_subset [of "getEntryKey sessionId uuid" new "mockEntries st"]
  have "entry = new \<or> (key, entry) \<in> set (mockEntries st)" by auto
  with added.IH added.hyps(2) id show ?case by auto
next
  case (looked_up st self clk sessionId entryId now)
  from looked_up.prems have "(key, entry) \<in> set (mockEntries st)"
    by (auto simp: getEntry_def Let_def map_delete_def split: option.splits if_splits)
  with looked_up.IH show ?case by blast
next
  case (deleted st self sessionId entryId)
  from deleted.prems have "(key, entry) \<in> set (mockEntries st)"
    by (auto simp: deleteEntry_def Let_def map_delete_def)
  with deleted.IH show ?case by blast
next
  case (tracked st self sessionId memberId now)
  from tracked.prems have "(key, entry) \<in> set (mockEntries st)"
    by (simp add: trackMember_def)
  with tracked.IH show ?case by blast
qed

section \<open>Reading the entries of a session\<close>

text \<open>
  C1, as the code has it: when the store holds no unexpired entry under a key that starts
  with \<^verbatim>\<open>session:<sessionId>:entry:\<close> (none added, all expired or all deleted),
  \<^verbatim>\<open>getAllEntries\<close> returns, as a normal result, the canned sample entries sorted
  newest first. The result is never the empty sequence.
\<close>

theorem getAllEntries_without_live_entries:
  assumes "\<forall>(key, entry) \<in> set (mockEntries st).
             prefix (''session:'' @ sessionId @ '':entry:'') key \<longrightarrow> e_expiresAt entry \<le> now"
  shows "getAllEntries self clk sessionId now st = js_sort newestFirst (sampleEntries clk)
         \<and> set (getAllEntries self clk sessionId now st) = set (sampleEntries clk)
         \<and> getAllEntries self clk sessionId now st \<noteq> []"
proof -
  have "filter (\<lambda>(key, entry). prefix (''session:'' @ sessionId @ '':entry:'') key
                                      \<and> now < e_expiresAt entry) (mockEntries st) = []"
    using assms by (auto simp: filter_empty_conv)
  then have eq: "getAllEntries self clk sessionId now st = js_sort newestFirst (sampleEntries clk)"
    by (simp add: getAllEntries_eq)
  moreover have "sampleEntries clk \<noteq> []" by (simp add: sampleEntries_def)
  ultimately show ?thesis by (simp add: js_sort_Nil_iff set_js_sort_newestFirst)
qed

text \<open>The theorem at a store whose only entry of session \<open>s1\<close> expired at time 2000.\<close>

theorem getAllEntries_without_live_entries_witness:
  "e_expiresAt \<lparr>e_id = ''u1'', e_text = ''hello'', e_createdAt = 1000, e_expiresAt = 2000,
        e_ttl = 1, e_imageUrl = None, e_memberId = ''m1''\<rparr> \<le> 5000
   \<and> getAllEntries (Instance 0) (same_ms 0) ''s1'' 5000
        \<lparr>mockEntries = [(''session:s1:entry:u1'',
            \<lparr>e_id = ''u1'', e_text = ''hello'', e_createdAt = 1000, e_expiresAt = 2000, e_ttl = 1,
             e_imageUrl = None, e_memberId = ''m1''\<rparr>)], mockMembers = []\<rparr>
       = js_sort newestFirst (sampleEntries (same_ms 0))
   \<and> map e_id (js_sort newestFirst (sampleEntries (same_ms 0)))
       = [''entry-1'', ''entry-2'', ''entry-3'']"
  using getAllEntries_without_live_entries [where st =
        "\<lparr>mockEntries = [(''session:s1:entry:u1'',
            \<lparr>e_id = ''u1'', e_text = ''hello'', e_createdAt = 1000, e_expiresAt = 2000, e_ttl = 1,
             e_imageUrl = None, e_memberId = ''m1''\<rparr>)], mockMembers = []\<rparr>"
        and sessionId = "''s1''" and now = 5000 and self = "Instance 0" and clk = "same_ms 0"]
  by (simp add: js_sort_def sampleEntries_def newestFirst_def same_ms_def)

text \<open>
  On the empty store the result for session \<open>s1\<close> is not the empty sequence that the
  specification asks for.
\<close>

theorem getAllEntries_empty_store_counterexample:
  "getAllEntries (Instance 0) (same_ms 0) ''s1'' 1000 module_init \<noteq> []
   \<and> map e_id (getAllEntries (Instance 0) (same_ms 0) ''s1'' 1000 module_init)
       = [''entry-1'', ''entry-2'', ''entry-3'']"
  by (simp add: getAllEntries_def module_init_def js_sort_def sampleEntries_def newestFirst_def
        same_ms_def)

section \<open>Looking up one entry\<close>

text \<open>
  C2, as the code has it: for a key that is not in the store (no entry was ever added under
  it) \<^verbatim>\<open>getEntry\<close> returns the first sample entry, \<^verbatim>\<open>entry-1\<close>, and leaves the
  store as it is; for a stored entry that has expired it returns \<^verbatim>\<open>null\<close>; for a
  stored entry that has not expired it returns that entry and leaves the store as it is.
  So \<^verbatim>\<open>null\<close> is returned exactly for a stored entry that has expired, and the
  outcome for a key never added differs from it.
\<close>

theorem getEntry_missing_key:
  "(map_get (getEntryKey sessionId entryId) (mockEntries st) = None \<longrightarrow>
      getEntry self clk sessionId entryId now st = (Some (sampleEntries clk ! 0), st)
      \<and> e_id (sampleEntries clk ! 0) = ''entry-1'')
   \<and> (map_get (getEntryKey sessionId entryId) (mockEntries st) = Some entry
        \<and> e_expiresAt entry \<le> now \<longrightarrow>
      fst (getEntry self clk sessionId entryId now st) = None)
   \<and> (map_get (getEntryKey sessionId entryId) (mockEntries st) = Some entry
        \<and> now < e_expiresAt entry \<longrightarrow>
      getEntry self clk sessionId entryId now st = (Some entry, st))
   \<and> (fst (getEntry self clk sessionId entryId now st) = None
        \<longleftrightarrow> (\<exists>stored. map_get (getEntryKey sessionId entryId) (mockEntries st) = Some stored
                       \<and> e_expiresAt stored \<le> now))"
proof (cases "map_get (getEntryKey sessionId entryId) (mockEntries st)")
  case None
  then show ?thesis
    by (simp add: getEntry_def sampleEntries_def)
next
  case (Some stored)
  then show ?thesis
    by (cases "e_expiresAt stored \<le> now") (simp_all add: getEntry_def)
qed

text \<open>
  The theorem on the empty store, and on a store whose entry expires at time 2000, looked up
  at times 5000 and 1500.
\<close>

theorem getEntry_missing_key_witness:
  "map_get (getEntryKey ''s1'' ''u1'') (mockEntries module_init) = None
   \<and> getEntry (Instance 0) (same_ms 0) ''s1'' ''u1'' 5000 module_init
       = (Some (sampleEntries (same_ms 0) ! 0), module_init)
   \<and> map_get (getEntryKey ''s1'' ''u1'') (mockEntries
        \<lparr>mockEntries = [(''session:s1:entry:u1'',
            \<lparr>e_id = ''u1'', e_text = ''hello'', e_createdAt = 1000, e_expiresAt = 2000, e_ttl = 1,
             e_imageUrl = None, e_memberId = ''m1''\<rparr>)], mockMembers = []\<rparr>)
       = Some \<lparr>e_id = ''u1'', e_text = ''hello'', e_createdAt = 1000, e_expiresAt = 2000, e_ttl = 1,
             e_imageUrl = None, e_memberId = ''m1''\<rparr>
   \<and> fst (getEntry (Instance 0) (same_ms 0) ''s1'' ''u1'' 5000
        \<lparr>mockEntries = [(''session:s1:entry:u1'',
            \<lparr>e_id = ''u1'', e_text = ''hello'', e_createdAt = 1000, e_expiresAt = 2000, e_ttl = 1,
             e_imageUrl = None, e_memberId = ''m1''\<rparr>)], mockMembers = []\<rparr>) = None
   \<and> getEntry (Instance 0) (same_ms 0) ''s1'' ''u1'' 1500
        \<lparr>mockEntries = [(''session:s1:entry:u1'',
            \<lparr>e_id = ''u1'', e_text = ''hello'', e_createdAt = 1000, e_expiresAt = 2000, e_ttl = 1,
             e_imageUrl = None, e_memberId = ''m1''\<rparr>)], mockMembers = []\<rparr>
       = (Some \<lparr>e_id = ''u1'', e_text = ''hello'', e_createdAt = 1000, e_expiresAt = 2000,
                e_ttl = 1, e_imageUrl = None, e_memberId = ''m1''\<rparr>,
          \<lparr>mockEntries = [(''session:s1:entry:u1'',
            \<lparr>e_id = ''u1'', e_text = ''hello'', e_createdAt = 1000, e_expiresAt = 2000, e_ttl = 1,
             e_imageUrl = None, e_memberId = ''m1''\<rparr>)], mockMembers = []\<rparr>)"
  using getEntry_missing_key [where sessionId = "''s1''" and entryId = "''u1''" and st = module_init
          and self = "Instance 0" and clk = "same_ms 0" and now = 5000]
        getEntry_missing_key [where sessionId = "''s1''" and entryId = "''u1''" and st =
          "\<lparr>mockEntries = [(''session:s1:entry:u1'',
            \<lparr>e_id = ''u1'', e_text = ''hello'', e_createdAt = 1000, e_expiresAt = 2000, e_ttl = 1,
             e_imageUrl = None, e_memberId = ''m1''\<rparr>)], mockMembers = []\<rparr>"
          and entry = "\<lparr>e_id = ''u1'', e_text = ''hello'', e_createdAt = 1000, e_expiresAt = 2000, e_ttl = 1,
             e_imageUrl = None, e_memberId = ''m1''\<rparr>" and now = 5000 and self = "Instance 0"
          and clk = "same_ms 0"]
        getEntry_missing_key [where sessionId = "''s1''" and entryId = "''u1''" and st =
          "\<lparr>mockEntries = [(''session:s1:entry:u1'',
            \<lparr>e_id = ''u1'', e_text = ''hello'', e_createdAt = 1000, e_expiresAt = 2000, e_ttl = 1,
             e_imageUrl = None, e_memberId = ''m1''\<rparr>)], mockMembers = []\<rparr>"
          and entry = "\<lparr>e_id = ''u1'', e_text = ''hello'', e_createdAt = 1000, e_expiresAt = 2000, e_ttl = 1,
             e_imageUrl = None, e_memberId = ''m1''\<rparr>" and now = 1500 and self = "Instance 0"
          and clk = "same_ms 0"]
  by (simp add: module_init_def map_get_def getEntryKey_def)

text \<open>A lookup on the empty store does not report that nothing was found.\<close>

theorem getEntry_never_added_counterexample:
  "fst (getEntry (Instance 0) (same_ms 0) ''s1'' ''u1'' 1000 module_init) \<noteq> None"
  by (simp add: getEntry_def module_init_def map_get_def sampleEntries_def)

section \<open>Presence\<close>

text \<open>
  C3, as the code has it: \<^verbatim>\<open>getOnlineMemberCount\<close> returns the larger of 3 and the
  number of records of the session that were seen less than the presence window ago. A
  member whose record is at least one window old adds nothing to the result: it is the same
  as without the record. After \<^verbatim>\<open>trackMember("s1","m1")\<close> and
  \<^verbatim>\<open>trackMember("s1","m2")\<close>, once the window has passed for both, the result is 3.
\<close>

theorem getOnlineMemberCount_at_least_three:
  "getOnlineMemberCount self R sessionId now st =
     max 3 (int (length (filter (\<lambda>(key, member). m_sessionId member = sessionId
                    \<and> now - m_lastSeen member < getMemberTTL R * 1000) (mockMembers st))))
   \<and> (distinct (map fst (mockMembers st))
        \<and> map_get (getMemberKey sessionId memberId) (mockMembers st) = Some member
        \<and> getMemberTTL R * 1000 \<le> now - m_lastSeen member \<longrightarrow>
      getOnlineMemberCount self R sessionId now st =
        getOnlineMemberCount self R sessionId now
          (st\<lparr>mockMembers := map_delete (getMemberKey sessionId memberId) (mockMembers st)\<rparr>))
   \<and> (getMemberTTL R * 1000 \<le> now - t1 \<and> getMemberTTL R * 1000 \<le> now - t2 \<longrightarrow>
      getOnlineMemberCount self R ''s1'' now
        (trackMember self2 ''s1'' ''m2'' t2 (trackMember self1 ''s1'' ''m1'' t1 module_init)) = 3)"
proof (intro conjI impI)
  show "getOnlineMemberCount self R sessionId now st =
     max 3 (int (length (filter (\<lambda>(key, member). m_sessionId member = sessionId
                    \<and> now - m_lastSeen member < getMemberTTL R * 1000) (mockMembers st))))"
    by (rule getOnlineMemberCount_eq)
next
  assume a: "distinct (map fst (mockMembers st))
        \<and> map_get (getMemberKey sessionId memberId) (mockMembers st) = Some member
        \<and> getMemberTTL R * 1000 \<le> now - m_lastSeen member"
  then have "\<not> (\<lambda>(key, member). m_sessionId member = sessionId
                    \<and> now - m_lastSeen member < getMemberTTL R * 1000) (getMemberKey sessionId memberId, member)"
    by simp
  with a have "filter (\<lambda>(key, member). m_sessionId member = sessionId
                    \<and> now - m_lastSeen member < getMemberTTL R * 1000)
                 (map_delete (getMemberKey sessionId memberId) (mockMembers st))
             = filter (\<lambda>(key, member). m_sessionId member = sessionId
                    \<and> now - m_lastSeen member < getMemberTTL R * 1000) (mockMembers st)"
    by (intro filter_map_delete_unselected) auto
  then show "getOnlineMemberCount self R sessionId now st =
        getOnlineMemberCount self R sessionId now
          (st\<lparr>mockMembers := map_delete (getMemberKey sessionId memberId) (mockMembers st)\<rparr>)"
    by (simp add: getOnlineMemberCount_eq)
next
  assume "getMemberTTL R * 1000 \<le> now - t1 \<and> getMemberTTL R * 1000 \<le> now - t2"
  then show "getOnlineMemberCount self R ''s1'' now
        (trackMember self2 ''s1'' ''m2'' t2 (trackMember self1 ''s1'' ''m1'' t1 module_init)) = 3"
    by (simp add: getOnlineMemberCount_eq trackMember_def module_init_def getMemberKey_def)
qed

text \<open>
  The theorem with a refetch interval of 5000 ms, so a window of 15000 ms, heartbeats at
  times 0 and 1 and a query at time 20000.
\<close>

theorem getOnlineMemberCount_at_least_three_witness:
  "distinct (map fst (mockMembers (trackMember (Instance 0) ''s1'' ''m1'' 0 module_init)))
   \<and> map_get (getMemberKey ''s1'' ''m1'') (mockMembers (trackMember (Instance 0) ''s1'' ''m1'' 0 module_init))
       = Some \<lparr>m_sessionId = ''s1'', m_memberId = ''m1'', m_lastSeen = 0\<rparr>
   \<and> getMemberTTL 5000 * 1000 \<le> 20000 - m_lastSeen \<lparr>m_sessionId = ''s1'', m_memberId = ''m1'', m_lastSeen = 0\<rparr>
   \<and> getOnlineMemberCount (Instance 0) 5000 ''s1'' 20000 (trackMember (Instance 0) ''s1'' ''m1'' 0 module_init)
       = getOnlineMemberCount (Instance 0) 5000 ''s1'' 20000 module_init
   \<and> getMemberTTL 5000 * 1000 \<le> 20000 - 0 \<and> getMemberTTL 5000 * 1000 \<le> 20000 - 1
   \<and> getOnlineMemberCount (Instance 0) 5000 ''s1'' 20000
        (trackMember (Instance 0) ''s1'' ''m2'' 1 (trackMember (Instance 0) ''s1'' ''m1'' 0 module_init)) = 3"
  using getOnlineMemberCount_at_least_three [of "Instance 0" 5000 "''s1''" 20000
          "trackMember (Instance 0) ''s1'' ''m1'' 0 module_init" "''m1''"
          "\<lparr>m_sessionId = ''s1'', m_memberId = ''m1'', m_lastSeen = 0\<rparr>" 0 1 "Instance 0" "Instance 0"]
  by (simp add: trackMember_def module_init_def getMemberKey_def getMemberTTL_def map_get_def map_delete_def)

text \<open>In the same scenario the count is not 0.\<close>

theorem getOnlineMemberCount_stale_counterexample:
  "getOnlineMemberCount (Instance 0) 5000 ''s1'' 20000
     (trackMember (Instance 0) ''s1'' ''m2'' 1 (trackMember (Instance 0) ''s1'' ''m1'' 0 module_init)) \<noteq> 0"
  by (simp add: getOnlineMemberCount_def trackMember_def module_init_def getMemberKey_def getMemberTTL_def)

section \<open>Deleting an entry\<close>

text \<open>
  C4 asks \<^verbatim>\<open>deleteEntry\<close> to return true only for an entry that has not expired. An
  entry added at time 1000 with a time to live of one second has expired at time 5000:
  \<^verbatim>\<open>getEntry\<close> at that time finds nothing, and \<^verbatim>\<open>deleteEntry\<close> on the same
  state returns true.
\<close>

theorem deleteEntry_expired_entry:
  "addEntry (Instance 0) ''hello'' 1 None ''s1'' ''m1''
       ''123e4567-e89b-42d3-a456-426614174000'' 1000 module_init
     = Inr (\<lparr>e_id = ''123e4567-e89b-42d3-a456-426614174000'', e_text = ''hello'',
              e_createdAt = 1000, e_expiresAt = 2000, e_ttl = 1,
              e_imageUrl = None, e_memberId = ''m1''\<rparr>,
            \<lparr>mockEntries = [(''session:s1:entry:123e4567-e89b-42d3-a456-426614174000'',
               \<lparr>e_id = ''123e4567-e89b-42d3-a456-426614174000'', e_text = ''hello'',
                e_createdAt = 1000, e_expiresAt = 2000, e_ttl = 1,
                e_imageUrl = None, e_memberId = ''m1''\<rparr>)], mockMembers = []\<rparr>)
   \<and> e_expiresAt \<lparr>e_id = ''123e4567-e89b-42d3-a456-426614174000'', e_text = ''hello'',
              e_createdAt = 1000, e_expiresAt = 2000, e_ttl = 1,
              e_imageUrl = None, e_memberId = ''m1''\<rparr> \<le> 5000
   \<and> fst (getEntry (Instance 0) (same_ms 0) ''s1'' ''123e4567-e89b-42d3-a456-426614174000'' 5000
            \<lparr>mockEntries = [(''session:s1:entry:123e4567-e89b-42d3-a456-426614174000'',
               \<lparr>e_id = ''123e4567-e89b-42d3-a456-426614174000'', e_text = ''hello'',
                e_createdAt = 1000, e_expiresAt = 2000, e_ttl = 1,
                e_imageUrl = None, e_memberId = ''m1''\<rparr>)], mockMembers = []\<rparr>) = None
   \<and> fst (deleteEntry (Instance 0) ''s1'' ''123e4567-e89b-42d3-a456-426614174000''
            \<lparr>mockEntries = [(''session:s1:entry:123e4567-e89b-42d3-a456-426614174000'',
               \<lparr>e_id = ''123e4567-e89b-42d3-a456-426614174000'', e_text = ''hello'',
                e_createdAt = 1000, e_expiresAt = 2000, e_ttl = 1,
                e_imageUrl = None, e_memberId = ''m1''\<rparr>)], mockMembers = []\<rparr>) = True"
  by (simp add: addEntry_def Let_def toISOString_def module_init_def getEntryKey_def deleteEntry_def
        getEntry_def map_get_def map_has_def)

text \<open>
  What \<^verbatim>\<open>deleteEntry\<close> computes: it reports whether the key was in the map, without
  reading the clock, and removes the key; the other keys and the presence records stay.
\<close>

lemma deleteEntry_result:
  "(fst (deleteEntry self sessionId entryId st)
      \<longleftrightarrow> map_get (getEntryKey sessionId entryId) (mockEntries st) \<noteq> None)
   \<and> map_get (getEntryKey sessionId entryId)
         (mockEntries (snd (deleteEntry self sessionId entryId st))) = None
   \<and> (k \<noteq> getEntryKey sessionId entryId \<longrightarrow>
        map_get k (mockEntries (snd (deleteEntry self sessionId entryId st)))
          = map_get k (mockEntries st))
   \<and> mockMembers (snd (deleteEntry self sessionId entryId st)) = mockMembers st
   \<and> (map_get (getEntryKey sessionId entryId) (mockEntries st) = None \<longrightarrow>
        deleteEntry self sessionId entryId st = (False, st))"
  by (simp add: deleteEntry_def Let_def map_has_def map_get_map_delete map_delete_absent)
     (simp add: map_get_def)

section \<open>Adding an entry\<close>

text \<open>
  C5, as the code has it: \<^verbatim>\<open>addEntry\<close> checks neither the text nor the time to live,
  and does not read \<^verbatim>\<open>MAX_TTL\<close>. Whenever the creation and expiry times are valid
  dates, it stores an entry with the text and the time to live it was given, and with
  \<open>expiresAt = createdAt + ttl * 1000\<close> milliseconds.
\<close>

theorem addEntry_stores_unvalidated:
  assumes "\<bar>now\<bar> \<le> 8640000000000000" and "\<bar>now + ttl * 1000\<bar> \<le> 8640000000000000"
  shows "case addEntry self entryText ttl imageUrl sessionId memberId uuid now st of
           Inl err \<Rightarrow> False
         | Inr (entry, st') \<Rightarrow>
             e_text entry = entryText \<and> e_ttl entry = ttl \<and> e_createdAt entry = now
             \<and> e_expiresAt entry = e_createdAt entry + ttl * 1000
             \<and> map_get (getEntryKey sessionId uuid) (mockEntries st') = Some entry"
  using assms by (simp add: addEntry_def Let_def toISOString_def map_get_map_set)

text \<open>The theorem for the empty text and a time to live of -5 seconds.\<close>

theorem addEntry_stores_unvalidated_witness:
  "\<bar>1000::int\<bar> \<le> 8640000000000000 \<and> \<bar>1000 + (-5) * 1000 :: int\<bar> \<le> 8640000000000000
   \<and> (case addEntry (Instance 0) [] (-5) None ''s1'' ''m1'' ''u1'' 1000 module_init of
           Inl err \<Rightarrow> False
         | Inr (entry, st') \<Rightarrow>
             e_text entry = [] \<and> e_ttl entry = -5 \<and> e_createdAt entry = 1000
             \<and> e_expiresAt entry = e_createdAt entry + (-5) * 1000
             \<and> map_get (getEntryKey ''s1'' ''u1'') (mockEntries st') = Some entry)"
  using addEntry_stores_unvalidated [where now = 1000 and ttl = "-5" and self = "Instance 0"
          and entryText = "[]" and imageUrl = None and sessionId = "''s1''" and memberId = "''m1''"
          and uuid = "''u1''" and st = module_init]
  by simp

text \<open>The entry stored for the empty text and a time to live of -5 seconds.\<close>

theorem addEntry_unvalidated_counterexample:
  "addEntry (Instance 0) [] (-5) None ''s1'' ''m1'' ''u1'' 1000 module_init
     = Inr (\<lparr>e_id = ''u1'', e_text = [], e_createdAt = 1000, e_expiresAt = -4000, e_ttl = -5,
              e_imageUrl = None, e_memberId = ''m1''\<rparr>,
            \<lparr>mockEntries = [(''session:s1:entry:u1'',
               \<lparr>e_id = ''u1'', e_text = [], e_createdAt = 1000, e_expiresAt = -4000, e_ttl = -5,
                e_imageUrl = None, e_memberId = ''m1''\<rparr>)], mockMembers = []\<rparr>)"
  by (simp add: addEntry_def Let_def toISOString_def module_init_def getEntryKey_def)

section \<open>One pair of maps for all instances\<close>

text \<open>
  C6, as the code has it: the two maps belong to the module, so every instance of
  \<^verbatim>\<open>SessionRedisService\<close> works on the same maps. They are empty when the module is
  loaded, each operation does the same whichever instance performs it, and an entry added
  through one instance is returned by \<^verbatim>\<open>getEntry\<close> through any other instance until it
  expires.
\<close>

theorem instances_share_module_maps:
  "mockEntries module_init = [] \<and> mockMembers module_init = []
   \<and> addEntry a entryText ttl imageUrl sessionId memberId uuid now st
       = addEntry b entryText ttl imageUrl sessionId memberId uuid now st
   \<and> getAllEntries a clk sessionId now st = getAllEntries b clk sessionId now st
   \<and> getEntry a clk sessionId entryId now st = getEntry b clk sessionId entryId now st
   \<and> deleteEntry a sessionId entryId st = deleteEntry b sessionId entryId st
   \<and> trackMember a sessionId memberId now st = trackMember b sessionId memberId now st
   \<and> getOnlineMemberCount a R sessionId now st = getOnlineMemberCount b R sessionId now st
   \<and> (addEntry a entryText ttl imageUrl sessionId memberId uuid now st = Inr (entry, st')
        \<and> now' < e_expiresAt entry \<longrightarrow>
      getEntry b clk sessionId uuid now' st' = (Some entry, st'))"
proof -
  have "getEntry b clk sessionId uuid now' st' = (Some entry, st')"
    if "addEntry a entryText ttl imageUrl sessionId memberId uuid now st = Inr (entry, st')"
      and "now' < e_expiresAt entry"
  proof -
    from that(1) have "map_get (getEntryKey sessionId uuid) (mockEntries st') = Some entry"
      by (auto simp: addEntry_def Let_def map_get_map_set split: sum.splits)
    with that(2) show ?thesis by (simp add: getEntry_def)
  qed
  then show ?thesis
    by (simp add: module_init_def addEntry_def getAllEntries_def getEntry_def deleteEntry_def
          trackMember_def getOnlineMemberCount_def)
qed

text \<open>An entry added through instance 1 and read through instance 2.\<close>

theorem instances_share_module_maps_witness:
  "addEntry (Instance 1) ''hello'' 60 None ''s1'' ''m1'' ''u1'' 1000 module_init
     = Inr (\<lparr>e_id = ''u1'', e_text = ''hello'', e_createdAt = 1000, e_expiresAt = 61000, e_ttl = 60,
              e_imageUrl = None, e_memberId = ''m1''\<rparr>,
            \<lparr>mockEntries = [(''session:s1:entry:u1'',
               \<lparr>e_id = ''u1'', e_text = ''hello'', e_createdAt = 1000, e_expiresAt = 61000, e_ttl = 60,
                e_imageUrl = None, e_memberId = ''m1''\<rparr>)], mockMembers = []\<rparr>)
   \<and> 1010 < e_expiresAt \<lparr>e_id = ''u1'', e_text = ''hello'', e_createdAt = 1000, e_expiresAt = 61000,
              e_ttl = 60, e_imageUrl = None, e_memberId = ''m1''\<rparr>
   \<and> fst (getEntry (Instance 2) (same_ms 0) ''s1'' ''u1'' 1010
        \<lparr>mockEntries = [(''session:s1:entry:u1'',
               \<lparr>e_id = ''u1'', e_text = ''hello'', e_createdAt = 1000, e_expiresAt = 61000, e_ttl = 60,
                e_imageUrl = None, e_memberId = ''m1''\<rparr>)], mockMembers = []\<rparr>)
      = Some \<lparr>e_id = ''u1'', e_text = ''hello'', e_createdAt = 1000, e_expiresAt = 61000, e_ttl = 60,
              e_imageUrl = None, e_memberId = ''m1''\<rparr>"
proof -
  have add: "addEntry (Instance 1) ''hello'' 60 None ''s1'' ''m1'' ''u1'' 1000 module_init
     = Inr (\<lparr>e_id = ''u1'', e_text = ''hello'', e_createdAt = 1000, e_expiresAt = 61000, e_ttl = 60,
              e_imageUrl = None, e_memberId = ''m1''\<rparr>,
            \<lparr>mockEntries = [(''session:s1:entry:u1'',
               \<lparr>e_id = ''u1'', e_text = ''hello'', e_createdAt = 1000, e_expiresAt = 61000, e_ttl = 60,
                e_imageUrl = None, e_memberId = ''m1''\<rparr>)], mockMembers = []\<rparr>)"
    by (simp add: addEntry_def Let_def toISOString_def module_init_def getEntryKey_def)
  show ?thesis
    using add instances_share_module_maps [where a = "Instance 1" and b = "Instance 2"
        and entryText = "''hello''" and ttl = 60 and imageUrl = None and sessionId = "''s1''"
        and memberId = "''m1''" and uuid = "''u1''" and now = 1000 and st = module_init
        and now' = 1010 and clk = "same_ms 0"
        and entry = "\<lparr>e_id = ''u1'', e_text = ''hello'', e_createdAt = 1000, e_expiresAt = 61000,
              e_ttl = 60, e_imageUrl = None, e_memberId = ''m1''\<rparr>"
        and st' = "\<lparr>mockEntries = [(''session:s1:entry:u1'',
               \<lparr>e_id = ''u1'', e_text = ''hello'', e_createdAt = 1000, e_expiresAt = 61000, e_ttl = 60,
                e_imageUrl = None, e_memberId = ''m1''\<rparr>)], mockMembers = []\<rparr>"]
    by simp
qed

text \<open>
  What instance 2 sees for session \<open>s1\<close> changes when instance 1 adds an entry: the sample
  entries before, the added entry afterwards.
\<close>

theorem instances_not_isolated_counterexample:
  "addEntry (Instance 1) ''hello'' 60 None ''s1'' ''m1'' ''u1'' 1000 module_init
     = Inr (\<lparr>e_id = ''u1'', e_text = ''hello'', e_createdAt = 1000, e_expiresAt = 61000, e_ttl = 60,
              e_imageUrl = None, e_memberId = ''m1''\<rparr>,
            \<lparr>mockEntries = [(''session:s1:entry:u1'',
               \<lparr>e_id = ''u1'', e_text = ''hello'', e_createdAt = 1000, e_expiresAt = 61000, e_ttl = 60,
                e_imageUrl = None, e_memberId = ''m1''\<rparr>)], mockMembers = []\<rparr>)
   \<and> map e_id (getAllEntries (Instance 2) (same_ms 0) ''s1'' 1010 module_init)
       = [''entry-1'', ''entry-2'', ''entry-3'']
   \<and> map e_id (getAllEntries (Instance 2) (same_ms 0) ''s1'' 1010
        \<lparr>mockEntries = [(''session:s1:entry:u1'',
               \<lparr>e_id = ''u1'', e_text = ''hello'', e_createdAt = 1000, e_expiresAt = 61000, e_ttl = 60,
                e_imageUrl = None, e_memberId = ''m1''\<rparr>)], mockMembers = []\<rparr>) = [''u1'']"
  by (simp add: addEntry_def Let_def toISOString_def module_init_def getEntryKey_def
        getAllEntries_def js_sort_def sampleEntries_def newestFirst_def same_ms_def)

section \<open>The entries of a session, newest first\<close>

text \<open>
  C7, as the code has it, for stores whose session and entry identifiers have no colon:
  every entry returned by \<^verbatim>\<open>getAllEntries\<close> is one of the sample entries or an
  unexpired entry stored under the key of that session and its own id; the result is sorted
  by \<^verbatim>\<open>createdAt\<close>, newest first, and entries with the same \<^verbatim>\<open>createdAt\<close> keep the
  order they have in the map, which is the order of insertion (for the fallback, the order
  of \<^verbatim>\<open>sampleEntries\<close>).
\<close>

theorem getAllEntries_session_and_order:
  assumes "entries_keyed_plain st"
  shows "(\<forall>entry \<in> set (getAllEntries self clk sessionId now st).
            entry \<in> set (sampleEntries clk)
            \<or> ((getEntryKey sessionId (e_id entry), entry) \<in> set (mockEntries st)
                \<and> now < e_expiresAt entry))
         \<and> sorted_wrt (\<lambda>a b. e_createdAt b \<le> e_createdAt a)
              (getAllEntries self clk sessionId now st)
         \<and> filter (\<lambda>e. e_createdAt e = t) (getAllEntries self clk sessionId now st)
             = filter (\<lambda>e. e_createdAt e = t)
                 (let live = map snd (filter (\<lambda>(key, entry).
                                prefix (''session:'' @ sessionId @ '':entry:'') key
                                \<and> now < e_expiresAt entry) (mockEntries st))
                  in if live = [] then sampleEntries clk else live)"
proof (intro conjI ballI)
  fix entry
  assume "entry \<in> set (getAllEntries self clk sessionId now st)"
  then consider "entry \<in> set (sampleEntries clk)"
    | key where "(key, entry) \<in> set (mockEntries st)"
        "prefix (''session:'' @ sessionId @ '':entry:'') key" "now < e_expiresAt entry"
    by (auto simp: getAllEntries_eq Let_def set_js_sort_newestFirst split: if_splits)
  then show "entry \<in> set (sampleEntries clk)
            \<or> ((getEntryKey sessionId (e_id entry), entry) \<in> set (mockEntries st)
                \<and> now < e_expiresAt entry)"
  proof cases
    case 1
    then show ?thesis by simp
  next
    case 2
    from assms 2(1) obtain s where s: "plain s" "plain (e_id entry)"
        "key = getEntryKey s (e_id entry)"
      by (auto simp: entries_keyed_plain_iff)
    with 2(2) have "sessionId = s"
      using session_prefix_plain by blast
    with s 2 show ?thesis by simp
  qed
next
  show "sorted_wrt (\<lambda>a b. e_createdAt b \<le> e_createdAt a)
          (getAllEntries self clk sessionId now st)"
    by (simp add: getAllEntries_eq Let_def js_sort_newestFirst_sorted)
next
  show "filter (\<lambda>e. e_createdAt e = t) (getAllEntries self clk sessionId now st)
             = filter (\<lambda>e. e_createdAt e = t)
                 (let live = map snd (filter (\<lambda>(key, entry).
                                prefix (''session:'' @ sessionId @ '':entry:'') key
                                \<and> now < e_expiresAt entry) (mockEntries st))
                  in if live = [] then sampleEntries clk else live)"
    by (simp add: getAllEntries_eq Let_def js_sort_newestFirst_stable)
qed

text \<open>The theorem on the store \<open>two_sessions_store\<close>, queried for session \<open>s1\<close> at time 3000.\<close>

lemma entries_keyed_plain_example: "entries_keyed_plain two_sessions_store"
  by (simp add: two_sessions_store_def entries_keyed_plain_def session_of_key_def
        getEntryKey_def plain_def)

theorem getAllEntries_session_and_order_witness:
  "entries_keyed_plain two_sessions_store
   \<and> map e_id (getAllEntries (Instance 0) (same_ms 0) ''s1'' 3000 two_sessions_store)
       = [''u3'', ''u1'', ''u4'']
   \<and> sorted_wrt (\<lambda>a b. e_createdAt b \<le> e_createdAt a)
        (getAllEntries (Instance 0) (same_ms 0) ''s1'' 3000 two_sessions_store)
   \<and> filter (\<lambda>e. e_createdAt e = 1000)
        (getAllEntries (Instance 0) (same_ms 0) ''s1'' 3000 two_sessions_store)
       = filter (\<lambda>e. e_createdAt e = 1000)
           (map snd (filter (\<lambda>(key, entry). prefix ''session:s1:entry:'' key
                                \<and> 3000 < e_expiresAt entry) (mockEntries two_sessions_store)))"
proof -
  note inst = getAllEntries_session_and_order [OF entries_keyed_plain_example,
      where self = "Instance 0" and clk = "same_ms 0" and sessionId = "''s1''" and now = 3000
        and t = 1000]
  have ids: "map e_id (getAllEntries (Instance 0) (same_ms 0) ''s1'' 3000 two_sessions_store)
       = [''u3'', ''u1'', ''u4'']"
    by (simp add: two_sessions_store_def getAllEntries_def js_sort_def newestFirst_def)
  have live: "map snd (filter (\<lambda>(key, entry). prefix ''session:s1:entry:'' key
                                \<and> 3000 < e_expiresAt entry) (mockEntries two_sessions_store)) \<noteq> []"
    by (simp add: two_sessions_store_def)
  from inst ids live entries_keyed_plain_example show ?thesis
    by (simp add: Let_def)
qed

text \<open>
  Two ways in which a returned entry was not added under the session asked for: the sample
  entries on the empty store, and an entry of session \<^verbatim>\<open>a:entry:b\<close> returned for
  session \<^verbatim>\<open>a\<close>, whose key prefix it shares.
\<close>

theorem getAllEntries_other_session_counterexample:
  "map e_id (getAllEntries (Instance 0) (same_ms 0) ''s1'' 1000 module_init)
     = [''entry-1'', ''entry-2'', ''entry-3'']
   \<and> addEntry (Instance 0) ''hello'' 60 None ''a:entry:b'' ''m1'' ''u1'' 1000 module_init
     = Inr (\<lparr>e_id = ''u1'', e_text = ''hello'', e_createdAt = 1000, e_expiresAt = 61000, e_ttl = 60,
              e_imageUrl = None, e_memberId = ''m1''\<rparr>,
            \<lparr>mockEntries = [(''session:a:entry:b:entry:u1'',
               \<lparr>e_id = ''u1'', e_text = ''hello'', e_createdAt = 1000, e_expiresAt = 61000, e_ttl = 60,
                e_imageUrl = None, e_memberId = ''m1''\<rparr>)], mockMembers = []\<rparr>)
   \<and> map e_id (getAllEntries (Instance 0) (same_ms 0) ''a'' 1010
        \<lparr>mockEntries = [(''session:a:entry:b:entry:u1'',
               \<lparr>e_id = ''u1'', e_text = ''hello'', e_createdAt = 1000, e_expiresAt = 61000, e_ttl = 60,
                e_imageUrl = None, e_memberId = ''m1''\<rparr>)], mockMembers = []\<rparr>) = [''u1'']"
  by (simp add: addEntry_def Let_def toISOString_def module_init_def getEntryKey_def
        getAllEntries_def js_sort_def sampleEntries_def newestFirst_def same_ms_def)

section \<open>Expiry on access\<close>

text \<open>
  C8: in every state the service reaches, for a stored entry with \<open>expiresAt \<le> now\<close>,
  \<^verbatim>\<open>getEntry\<close> removes its key from the store and returns \<^verbatim>\<open>null\<close>, and the entry
  is in no result of \<^verbatim>\<open>getAllEntries\<close> at that time or later, whatever the store holds
  then.
\<close>

theorem getEntry_evicts_expired:
  assumes "reachable st"
    and "map_get (getEntryKey sessionId entryId) (mockEntries st) = Some entry"
    and "e_expiresAt entry \<le> now"
  shows "getEntry self clk sessionId entryId now st
           = (None, st\<lparr>mockEntries := map_delete (getEntryKey sessionId entryId) (mockEntries st)\<rparr>)
         \<and> map_get (getEntryKey sessionId entryId)
              (mockEntries (snd (getEntry self clk sessionId entryId now st))) = None
         \<and> (now \<le> now' \<longrightarrow>
              entry \<notin> set (getAllEntries self' clk sessionId now' st''))"
proof -
  from assms(2) have "(getEntryKey sessionId entryId, entry) \<in> set (mockEntries st)"
    by (auto simp: map_get_def dest: map_of_SomeD)
  with assms(1) have "is_uuid (e_id entry)"
    by (rule reachable_ids_are_uuids)
  then have not_sample: "entry \<notin> set (sampleEntries clk)"
    by (rule is_uuid_not_sample)
  have "entry \<notin> set (getAllEntries self' clk sessionId now' st'')" if "now \<le> now'"
    using that not_sample assms(3)
    by (auto simp: getAllEntries_eq Let_def set_js_sort_newestFirst)
  with assms(2,3) show ?thesis
    by (simp add: getEntry_def map_get_map_delete)
qed

text \<open>
  The state after one \<^verbatim>\<open>addEntry\<close> at time 1000 with a time to live of 60 seconds; the
  entry is looked up at time 62000 and the session is read at time 63000.
\<close>

lemma reachable_example:
  "reachable
     \<lparr>mockEntries = [(''session:s1:entry:123e4567-e89b-42d3-a456-426614174000'',
        \<lparr>e_id = ''123e4567-e89b-42d3-a456-426614174000'', e_text = ''hello'',
         e_createdAt = 1000, e_expiresAt = 61000, e_ttl = 60,
         e_imageUrl = None, e_memberId = ''m1''\<rparr>)], mockMembers = []\<rparr>"
proof -
  have "addEntry (Instance 0) ''hello'' 60 None ''s1'' ''m1''
          ''123e4567-e89b-42d3-a456-426614174000'' 1000 module_init
        = Inr (\<lparr>e_id = ''123e4567-e89b-42d3-a456-426614174000'', e_text = ''hello'',
                 e_createdAt = 1000, e_expiresAt = 61000, e_ttl = 60,
                 e_imageUrl = None, e_memberId = ''m1''\<rparr>,
               \<lparr>mockEntries = [(''session:s1:entry:123e4567-e89b-42d3-a456-426614174000'',
                  \<lparr>e_id = ''123e4567-e89b-42d3-a456-426614174000'', e_text = ''hello'',
                   e_createdAt = 1000, e_expiresAt = 61000, e_ttl = 60,
                   e_imageUrl = None, e_memberId = ''m1''\<rparr>)], mockMembers = []\<rparr>)"
    by (simp add: addEntry_def Let_def toISOString_def module_init_def getEntryKey_def)
  with reachable.loaded is_uuid_example show ?thesis
    by (rule reachable.added)
qed

theorem getEntry_evicts_expired_witness:
  "reachable
     \<lparr>mockEntries = [(''session:s1:entry:123e4567-e89b-42d3-a456-426614174000'',
        \<lparr>e_id = ''123e4567-e89b-42d3-a456-426614174000'', e_text = ''hello'',
         e_createdAt = 1000, e_expiresAt = 61000, e_ttl = 60,
         e_imageUrl = None, e_memberId = ''m1''\<rparr>)], mockMembers = []\<rparr>
   \<and> map_get (getEntryKey ''s1'' ''123e4567-e89b-42d3-a456-426614174000'') (mockEntries
        \<lparr>mockEntries = [(''session:s1:entry:123e4567-e89b-42d3-a456-426614174000'',
          \<lparr>e_id = ''123e4567-e89b-42d3-a456-426614174000'', e_text = ''hello'',
           e_createdAt = 1000, e_expiresAt = 61000, e_ttl = 60,
           e_imageUrl = None, e_memberId = ''m1''\<rparr>)], mockMembers = []\<rparr>)
     = Some \<lparr>e_id = ''123e4567-e89b-42d3-a456-426614174000'', e_text = ''hello'',
           e_createdAt = 1000, e_expiresAt = 61000, e_ttl = 60,
           e_imageUrl = None, e_memberId = ''m1''\<rparr>
   \<and> e_expiresAt \<lparr>e_id = ''123e4567-e89b-42d3-a456-426614174000'', e_text = ''hello'',
           e_createdAt = 1000, e_expiresAt = 61000, e_ttl = 60,
           e_imageUrl = None, e_memberId = ''m1''\<rparr> \<le> 62000
   \<and> getEntry (Instance 0) (same_ms 0) ''s1'' ''123e4567-e89b-42d3-a456-426614174000'' 62000
        \<lparr>mockEntries = [(''session:s1:entry:123e4567-e89b-42d3-a456-426614174000'',
          \<lparr>e_id = ''123e4567-e89b-42d3-a456-426614174000'', e_text = ''hello'',
           e_createdAt = 1000, e_expiresAt = 61000, e_ttl = 60,
           e_imageUrl = None, e_memberId = ''m1''\<rparr>)], mockMembers = []\<rparr>
       = (None, \<lparr>mockEntries = [], mockMembers = []\<rparr>)
   \<and> \<lparr>e_id = ''123e4567-e89b-42d3-a456-426614174000'', e_text = ''hello'',
           e_createdAt = 1000, e_expiresAt = 61000, e_ttl = 60,
           e_imageUrl = None, e_memberId = ''m1''\<rparr>
       \<notin> set (getAllEntries (Instance 0) (same_ms 0) ''s1'' 63000 \<lparr>mockEntries = [], mockMembers = []\<rparr>)"
proof -
  have stored: "map_get (getEntryKey ''s1'' ''123e4567-e89b-42d3-a456-426614174000'') (mockEntries
        \<lparr>mockEntries = [(''session:s1:entry:123e4567-e89b-42d3-a456-426614174000'',
          \<lparr>e_id = ''123e4567-e89b-42d3-a456-426614174000'', e_text = ''hello'',
           e_createdAt = 1000, e_expiresAt = 61000, e_ttl = 60,
           e_imageUrl = None, e_memberId = ''m1''\<rparr>)], mockMembers = []\<rparr>)
     = Some \<lparr>e_id = ''123e4567-e89b-42d3-a456-426614174000'', e_text = ''hello'',
           e_createdAt = 1000, e_expiresAt = 61000, e_ttl = 60,
           e_imageUrl = None, e_memberId = ''m1''\<rparr>"
    by (simp add: map_get_def getEntryKey_def)
  have expired: "e_expiresAt \<lparr>e_id = ''123e4567-e89b-42d3-a456-426614174000'', e_text = ''hello'',
           e_createdAt = 1000, e_expiresAt = 61000, e_ttl = 60,
           e_imageUrl = None, e_memberId = ''m1''\<rparr> \<le> 62000"
    by simp
  show ?thesis
    using reachable_example stored
      getEntry_evicts_expired [OF reachable_example stored expired,
        where now' = 63000 and self = "Instance 0" and self' = "Instance 0"
          and clk = "same_ms 0" and st'' = "\<lparr>mockEntries = [], mockMembers = []\<rparr>"]
    by (simp add: getEntryKey_def map_delete_def)
qed

section \<open>Adding, then reading\<close>

text \<open>
  C9: an \<^verbatim>\<open>addEntry\<close> with a positive time to live returns an entry, and a
  \<^verbatim>\<open>getEntry\<close> for its id in the same session, at any time before the entry expires,
  returns that entry: with the text, the member and the time to live of the call, and with
  \<open>expiresAt - createdAt\<close> equal to the time to live (the dates are in milliseconds, the
  time to live in seconds).
\<close>

theorem addEntry_then_getEntry:
  assumes "\<bar>now\<bar> \<le> 8640000000000000" and "\<bar>now + ttl * 1000\<bar> \<le> 8640000000000000"
    and "now \<le> now'" and "now' < now + ttl * 1000"
  shows "case addEntry self entryText ttl imageUrl sessionId memberId uuid now st of
           Inl err \<Rightarrow> False
         | Inr (entry, st') \<Rightarrow>
             getEntry self' clk sessionId (e_id entry) now' st' = (Some entry, st')
             \<and> e_text entry = entryText \<and> e_memberId entry = memberId \<and> e_ttl entry = ttl
             \<and> e_expiresAt entry - e_createdAt entry = ttl * 1000"
  using assms
  by (simp add: addEntry_def Let_def toISOString_def getEntry_def map_get_map_set)

text \<open>\<^verbatim>\<open>add("s1","m1","hello",60)\<close> at time 1000 and the lookup 10 ms later.\<close>

theorem addEntry_then_getEntry_witness:
  "\<bar>1000::int\<bar> \<le> 8640000000000000 \<and> \<bar>1000 + 60 * 1000 :: int\<bar> \<le> 8640000000000000
   \<and> (1000::int) \<le> 1010 \<and> (1010::int) < 1000 + 60 * 1000
   \<and> (case addEntry (Instance 0) ''hello'' 60 None ''s1'' ''m1'' ''u1'' 1000 module_init of
           Inl err \<Rightarrow> False
         | Inr (entry, st') \<Rightarrow>
             getEntry (Instance 0) (same_ms 0) ''s1'' (e_id entry) 1010 st' = (Some entry, st')
             \<and> e_text entry = ''hello'' \<and> e_memberId entry = ''m1'' \<and> e_ttl entry = 60
             \<and> e_expiresAt entry - e_createdAt entry = 60 * 1000)"
  using addEntry_then_getEntry [where now = 1000 and ttl = 60 and now' = 1010
      and self = "Instance 0" and self' = "Instance 0" and entryText = "''hello''"
      and imageUrl = None and sessionId = "''s1''" and memberId = "''m1''" and uuid = "''u1''"
      and st = module_init and clk = "same_ms 0"]
  by simp

section \<open>Keys and ids\<close>

text \<open>
  C10, as the code has it: every key of the entry map is
  \<^verbatim>\<open>session:<sessionId>:entry:<id>\<close> for the id of the entry stored under it; the empty
  store satisfies this and every operation keeps it, and \<^verbatim>\<open>addEntry\<close> stores the new
  entry under the key of its session and id. When \<^verbatim>\<open>getEntry\<close> returns an entry found
  in the store and neither the requested id nor the id of the entry has a colon, the two
  ids are equal.
\<close>

theorem entries_keyed_by_their_id:
  "entries_keyed module_init
   \<and> (entries_keyed st \<longrightarrow>
        (case addEntry self entryText ttl imageUrl sessionId memberId uuid now st of
           Inl err \<Rightarrow> True
         | Inr (entry, st') \<Rightarrow>
             entries_keyed st'
             \<and> map_get (getEntryKey sessionId (e_id entry)) (mockEntries st') = Some entry)
        \<and> entries_keyed (snd (getEntry self clk sessionId entryId now st))
        \<and> entries_keyed (snd (deleteEntry self sessionId entryId st))
        \<and> entries_keyed (trackMember self sessionId memberId now st))
   \<and> (entries_keyed st
        \<and> map_get (getEntryKey sessionId entryId) (mockEntries st) = Some found
        \<and> getEntry self clk sessionId entryId now st = (Some found, st')
        \<and> plain entryId \<and> plain (e_id found) \<longrightarrow>
      e_id found = entryId)"
proof (intro conjI impI)
  show "entries_keyed module_init"
    by (simp add: entries_keyed_iff module_init_def)
next
  assume inv: "entries_keyed st"
  show "case addEntry self entryText ttl imageUrl sessionId memberId uuid now st of
           Inl err \<Rightarrow> True
         | Inr (entry, st') \<Rightarrow>
             entries_keyed st'
             \<and> map_get (getEntryKey sessionId (e_id entry)) (mockEntries st') = Some entry"
    using entries_keyed_map_set [OF inv, of sessionId
        "\<lparr>e_id = uuid, e_text = entryText, e_createdAt = now, e_expiresAt = now + ttl * 1000,
          e_ttl = ttl,
          e_imageUrl = (case imageUrl of None \<Rightarrow> None
                        | Some u \<Rightarrow> if u = [] then None else Some u),
          e_memberId = memberId\<rparr>"]
    by (simp add: addEntry_def Let_def toISOString_def map_get_map_set)
next
  assume inv: "entries_keyed st"
  show "entries_keyed (snd (getEntry self clk sessionId entryId now st))"
    using inv entries_keyed_map_delete [OF inv]
    by (simp add: getEntry_def Let_def split: option.splits)
next
  assume inv: "entries_keyed st"
  show "entries_keyed (snd (deleteEntry self sessionId entryId st))"
    using entries_keyed_map_delete [OF inv]
    by (simp add: deleteEntry_def Let_def)
next
  assume inv: "entries_keyed st"
  then show "entries_keyed (trackMember self sessionId memberId now st)"
    by (simp add: trackMember_def entries_keyed_iff)
next
  assume a: "entries_keyed st
        \<and> map_get (getEntryKey sessionId entryId) (mockEntries st) = Some found
        \<and> getEntry self clk sessionId entryId now st = (Some found, st')
        \<and> plain entryId \<and> plain (e_id found)"
  then have "(getEntryKey sessionId entryId, found) \<in> set (mockEntries st)"
    by (auto simp: map_get_def dest: map_of_SomeD)
  with a obtain s where "getEntryKey sessionId entryId = getEntryKey s (e_id found)"
    by (auto simp: entries_keyed_iff)
  with a show "e_id found = entryId"
    using getEntryKey_inject by metis
qed

text \<open>The store after one \<^verbatim>\<open>addEntry\<close> for session \<open>s1\<close>.\<close>

lemma entries_keyed_example:
  "entries_keyed
     \<lparr>mockEntries = [(''session:s1:entry:u1'',
        \<lparr>e_id = ''u1'', e_text = ''hello'', e_createdAt = 1000, e_expiresAt = 61000, e_ttl = 60,
         e_imageUrl = None, e_memberId = ''m1''\<rparr>)], mockMembers = []\<rparr>"
  by (simp add: entries_keyed_def session_of_key_def getEntryKey_def)

theorem entries_keyed_by_their_id_witness:
  "entries_keyed
     \<lparr>mockEntries = [(''session:s1:entry:u1'',
        \<lparr>e_id = ''u1'', e_text = ''hello'', e_createdAt = 1000, e_expiresAt = 61000, e_ttl = 60,
         e_imageUrl = None, e_memberId = ''m1''\<rparr>)], mockMembers = []\<rparr>
   \<and> entries_keyed (snd (deleteEntry (Instance 0) ''s1'' ''u1''
        \<lparr>mockEntries = [(''session:s1:entry:u1'',
          \<lparr>e_id = ''u1'', e_text = ''hello'', e_createdAt = 1000, e_expiresAt = 61000, e_ttl = 60,
           e_imageUrl = None, e_memberId = ''m1''\<rparr>)], mockMembers = []\<rparr>))
   \<and> getEntry (Instance 0) (same_ms 0) ''s1'' ''u1'' 1010
        \<lparr>mockEntries = [(''session:s1:entry:u1'',
          \<lparr>e_id = ''u1'', e_text = ''hello'', e_createdAt = 1000, e_expiresAt = 61000, e_ttl = 60,
           e_imageUrl = None, e_memberId = ''m1''\<rparr>)], mockMembers = []\<rparr>
       = (Some \<lparr>e_id = ''u1'', e_text = ''hello'', e_createdAt = 1000, e_expiresAt = 61000,
                e_ttl = 60, e_imageUrl = None, e_memberId = ''m1''\<rparr>,
          \<lparr>mockEntries = [(''session:s1:entry:u1'',
            \<lparr>e_id = ''u1'', e_text = ''hello'', e_createdAt = 1000, e_expiresAt = 61000, e_ttl = 60,
             e_imageUrl = None, e_memberId = ''m1''\<rparr>)], mockMembers = []\<rparr>)
   \<and> plain ''u1''
   \<and> e_id \<lparr>e_id = ''u1'', e_text = ''hello'', e_createdAt = 1000, e_expiresAt = 61000,
             e_ttl = 60, e_imageUrl = None, e_memberId = ''m1''\<rparr> = ''u1''"
proof -
  have get: "getEntry (Instance 0) (same_ms 0) ''s1'' ''u1'' 1010
        \<lparr>mockEntries = [(''session:s1:entry:u1'',
          \<lparr>e_id = ''u1'', e_text = ''hello'', e_createdAt = 1000, e_expiresAt = 61000, e_ttl = 60,
           e_imageUrl = None, e_memberId = ''m1''\<rparr>)], mockMembers = []\<rparr>
       = (Some \<lparr>e_id = ''u1'', e_text = ''hello'', e_createdAt = 1000, e_expiresAt = 61000,
                e_ttl = 60, e_imageUrl = None, e_memberId = ''m1''\<rparr>,
          \<lparr>mockEntries = [(''session:s1:entry:u1'',
            \<lparr>e_id = ''u1'', e_text = ''hello'', e_createdAt = 1000, e_expiresAt = 61000, e_ttl = 60,
             e_imageUrl = None, e_memberId = ''m1''\<rparr>)], mockMembers = []\<rparr>)"
    by (simp add: getEntry_def getEntryKey_def map_get_def)
  have found: "map_get (getEntryKey ''s1'' ''u1'') (mockEntries
        \<lparr>mockEntries = [(''session:s1:entry:u1'',
          \<lparr>e_id = ''u1'', e_text = ''hello'', e_createdAt = 1000, e_expiresAt = 61000, e_ttl = 60,
           e_imageUrl = None, e_memberId = ''m1''\<rparr>)], mockMembers = []\<rparr>)
       = Some \<lparr>e_id = ''u1'', e_text = ''hello'', e_createdAt = 1000, e_expiresAt = 61000,
                e_ttl = 60, e_imageUrl = None, e_memberId = ''m1''\<rparr>"
    by (simp add: getEntryKey_def map_get_def)
  have pl: "plain ''u1''"
    by (simp add: plain_def)
  show ?thesis
    using entries_keyed_example get found pl
      entries_keyed_by_their_id [where st =
        "\<lparr>mockEntries = [(''session:s1:entry:u1'',
          \<lparr>e_id = ''u1'', e_text = ''hello'', e_createdAt = 1000, e_expiresAt = 61000, e_ttl = 60,
           e_imageUrl = None, e_memberId = ''m1''\<rparr>)], mockMembers = []\<rparr>"
        and self = "Instance 0" and clk = "same_ms 0" and sessionId = "''s1''"
        and entryId = "''u1''" and now = 1010
        and found = "\<lparr>e_id = ''u1'', e_text = ''hello'', e_createdAt = 1000, e_expiresAt = 61000,
                e_ttl = 60, e_imageUrl = None, e_memberId = ''m1''\<rparr>"
        and st' = "\<lparr>mockEntries = [(''session:s1:entry:u1'',
          \<lparr>e_id = ''u1'', e_text = ''hello'', e_createdAt = 1000, e_expiresAt = 61000, e_ttl = 60,
           e_imageUrl = None, e_memberId = ''m1''\<rparr>)], mockMembers = []\<rparr>"]
    by simp
qed

text \<open>
  An entry added under session \<^verbatim>\<open>a:entry:b\<close> with id \<open>u1\<close> is found by a lookup of
  the id \<^verbatim>\<open>b:entry:u1\<close> in session \<^verbatim>\<open>a\<close>: the two pairs give the same key.
\<close>

theorem getEntry_other_id_counterexample:
  "addEntry (Instance 0) ''hello'' 60 None ''a:entry:b'' ''m1'' ''u1'' 1000 module_init
     = Inr (\<lparr>e_id = ''u1'', e_text = ''hello'', e_createdAt = 1000, e_expiresAt = 61000, e_ttl = 60,
              e_imageUrl = None, e_memberId = ''m1''\<rparr>,
            \<lparr>mockEntries = [(''session:a:entry:b:entry:u1'',
               \<lparr>e_id = ''u1'', e_text = ''hello'', e_createdAt = 1000, e_expiresAt = 61000, e_ttl = 60,
                e_imageUrl = None, e_memberId = ''m1''\<rparr>)], mockMembers = []\<rparr>)
   \<and> map_get (getEntryKey ''a'' ''b:entry:u1'') (mockEntries
        \<lparr>mockEntries = [(''session:a:entry:b:entry:u1'',
               \<lparr>e_id = ''u1'', e_text = ''hello'', e_createdAt = 1000, e_expiresAt = 61000, e_ttl = 60,
                e_imageUrl = None, e_memberId = ''m1''\<rparr>)], mockMembers = []\<rparr>)
       = Some \<lparr>e_id = ''u1'', e_text = ''hello'', e_createdAt = 1000, e_expiresAt = 61000,
                e_ttl = 60, e_imageUrl = None, e_memberId = ''m1''\<rparr>
   \<and> fst (getEntry (Instance 0) (same_ms 0) ''a'' ''b:entry:u1'' 1010
        \<lparr>mockEntries = [(''session:a:entry:b:entry:u1'',
               \<lparr>e_id = ''u1'', e_text = ''hello'', e_createdAt = 1000, e_expiresAt = 61000, e_ttl = 60,
                e_imageUrl = None, e_memberId = ''m1''\<rparr>)], mockMembers = []\<rparr>)
       = Some \<lparr>e_id = ''u1'', e_text = ''hello'', e_createdAt = 1000, e_expiresAt = 61000,
                e_ttl = 60, e_imageUrl = None, e_memberId = ''m1''\<rparr>
   \<and> e_id \<lparr>e_id = ''u1'', e_text = ''hello'', e_createdAt = 1000, e_expiresAt = 61000,
             e_ttl = 60, e_imageUrl = None, e_memberId = ''m1''\<rparr> \<noteq> ''b:entry:u1''"
  by (simp add: addEntry_def Let_def toISOString_def module_init_def getEntryKey_def
        getEntry_def map_get_def)

end
